theory Spec2Isabelle
  imports Complex_Main
begin

section \<open>Python strings\<close>

text \<open>
  A Python \<open>str\<close> is a sequence of Unicode code points, so a string is modelled as a list
  of natural numbers, one per code point. \<open>lit\<close> turns an ASCII literal of the source into
  such a list; the newline character is the code point 10, the comma 44, the apostrophe 39.
\<close>

type_synonym ustr = "nat list"

definition lit :: "string \<Rightarrow> ustr" where
  "lit s = map of_char s"

text \<open>
  \<open>str.isspace\<close> on one code point: the characters that \<open>strip()\<close> removes and on which
  \<open>split()\<close> without argument separates. They are U+0009..U+000D, U+001C..U+0020, U+0085,
  U+00A0, U+1680, U+2000..U+200A, U+2028, U+2029, U+202F, U+205F and U+3000.
\<close>

definition isspace :: "nat \<Rightarrow> bool" where
  "isspace c \<longleftrightarrow>
     (9 \<le> c \<and> c \<le> 13) \<or> (28 \<le> c \<and> c \<le> 32) \<or> c = 133 \<or> c = 160 \<or> c = 5760 \<or>
     (8192 \<le> c \<and> c \<le> 8202) \<or> c = 8232 \<or> c = 8233 \<or> c = 8239 \<or> c = 8287 \<or> c = 12288"

text \<open>\<open>s.strip()\<close>: leading and trailing whitespace removed.\<close>

definition str_strip :: "ustr \<Rightarrow> ustr" where
  "str_strip s = rev (dropWhile isspace (rev (dropWhile isspace s)))"

text \<open>\<open>s.startswith(p)\<close>.\<close>

definition str_startswith :: "ustr \<Rightarrow> ustr \<Rightarrow> bool" where
  "str_startswith s p \<longleftrightarrow> take (length p) s = p"

text \<open>\<open>p in s\<close>: \<open>p\<close> occurs in \<open>s\<close> as a contiguous substring.\<close>

fun str_contains :: "ustr \<Rightarrow> ustr \<Rightarrow> bool" where
  "str_contains [] p = (p = [])"
| "str_contains (c # cs) p = (str_startswith (c # cs) p \<or> str_contains cs p)"

text \<open>
  \<open>s.replace(old, new)\<close> for a non-empty \<open>old\<close>: every occurrence of \<open>old\<close> is replaced,
  scanning from the left, and the scan resumes after the replaced occurrence. At an
  occurrence, \<open>old\<close> is non-empty and a prefix of \<open>c # cs\<close>, so dropping \<open>length old - 1\<close>
  characters of \<open>cs\<close> skips exactly the occurrence.
\<close>

fun str_replace :: "ustr \<Rightarrow> ustr \<Rightarrow> ustr \<Rightarrow> ustr" where
  "str_replace [] old new = []"
| "str_replace (c # cs) old new =
     (if str_startswith (c # cs) old then new @ str_replace (drop (length old - 1) cs) old new
      else c # str_replace cs old new)"

text \<open>
  \<open>s.split(sep)\<close> for a non-empty \<open>sep\<close>: the pieces between the occurrences of \<open>sep\<close>,
  found from the left without overlap; the result always has at least one piece.
  \<open>cur\<close> is the piece being read.
\<close>

fun split_from :: "ustr \<Rightarrow> ustr \<Rightarrow> ustr \<Rightarrow> ustr list" where
  "split_from cur [] sep = [cur]"
| "split_from cur (c # cs) sep =
     (if str_startswith (c # cs) sep then cur # split_from [] (drop (length sep - 1) cs) sep
      else split_from (cur @ [c]) cs sep)"

definition str_split :: "ustr \<Rightarrow> ustr \<Rightarrow> ustr list" where
  "str_split s sep = split_from [] s sep"

text \<open>
  \<open>s.split()\<close> without argument: the maximal runs of non-whitespace characters, in order.
  \<open>cur\<close> is the run being read.
\<close>

fun words_from :: "ustr \<Rightarrow> ustr \<Rightarrow> ustr list" where
  "words_from cur [] = (if cur = [] then [] else [cur])"
| "words_from cur (c # cs) =
     (if isspace c then (if cur = [] then words_from [] cs else cur # words_from [] cs)
      else words_from (cur @ [c]) cs)"

definition str_split_ws :: "ustr \<Rightarrow> ustr list" where
  "str_split_ws s = words_from [] s"

text \<open>\<open>sep.join(xs)\<close>.\<close>

fun str_join :: "ustr \<Rightarrow> ustr list \<Rightarrow> ustr" where
  "str_join sep [] = []"
| "str_join sep [x] = x"
| "str_join sep (x # y # ys) = x @ sep @ str_join sep (y # ys)"

text \<open>\<open>str(n)\<close> of an integer, as an f-string writes it: decimal digits, with a minus sign.\<close>

fun str_nat :: "nat \<Rightarrow> ustr" where
  "str_nat n = (if n < 10 then [48 + n] else str_nat (n div 10) @ [48 + n mod 10])"

definition str_int :: "int \<Rightarrow> ustr" where
  "str_int i = (if i < 0 then 45 # str_nat (nat (- i)) else str_nat (nat i))"

text \<open>\<open>int(x)\<close> of a number: truncation towards zero.\<close>

definition py_int :: "rat \<Rightarrow> int" where
  "py_int q = (if 0 \<le> q then \<lfloor>q\<rfloor> else \<lceil>q\<rceil>)"

section \<open>The external collaborators\<close>

text \<open>
  \<open>openai.ChatCompletion.create\<close> is called with the keyword arguments \<open>model\<close>,
  \<open>messages\<close> (role and content of each message), \<open>max_tokens\<close> and \<open>temperature\<close>.
  The temperature is the decimal literal of the source, as a rational number.

  The call, together with the reading of \<open>response.choices[0].message.content\<close>, either
  raises an exception \<open>e\<close>, modelled as \<open>Inl\<close> of the text \<open>str(e)\<close>, or yields the reply
  text, modelled as \<open>Inr\<close>.
\<close>

record chat_request =
  model :: ustr
  messages :: "(ustr \<times> ustr) list"
  max_tokens :: int
  temperature :: rat

type_synonym chat_api = "chat_request \<Rightarrow> ustr + ustr"

text \<open>
  \<open>datetime.now().isoformat()\<close>: \<open>now k\<close> is the text returned by the \<open>k\<close>-th reading of
  the clock during one operation, counted from 0.
\<close>

type_synonym clock = "nat \<Rightarrow> ustr"

section \<open>AIContentGenerator.generate\_blog\_post\<close>

definition blog_prompt :: "ustr \<Rightarrow> ustr \<Rightarrow> int \<Rightarrow> ustr" where
  "blog_prompt topic target_audience word_count = concat [
      [10],
      lit ''        Write a comprehensive blog post about '', [39], topic, [39], lit '' for '', target_audience, lit ''.'', [10],
      lit ''        '', [10],
      lit ''        Requirements:'', [10],
      lit ''        - Approximately '', str_int word_count, lit '' words'', [10],
      lit ''        - Include an engaging title'', [10],
      lit ''        - Structure with clear headings and subheadings'', [10],
      lit ''        - Include practical tips or actionable advice'', [10],
      lit ''        - End with a conclusion that encourages engagement'', [10],
      lit ''        - Use a conversational but professional tone'', [10],
      lit ''        '', [10],
      lit ''        Format the response as:'', [10],
      lit ''        TITLE: [Blog post title]'', [10],
      lit ''        '', [10],
      lit ''        CONTENT:'', [10],
      lit ''        [Full blog post content with proper formatting]'', [10],
      lit ''        '', [10],
      lit ''        TAGS: [5 relevant tags separated by commas]'', [10],
      lit ''        '']"

text \<open>
  The request of the blog post. \<open>estimated_tokens = int(word_count * 1.5)\<close>: the product
  is a float, which is the exact value \<open>3 * word_count / 2\<close> as long as it fits the 53-bit
  mantissa, so for \<open>\<bar>word_count\<bar> < 2 ^ 51\<close>; the model is the exact product.
\<close>

definition blog_request :: "ustr \<Rightarrow> ustr \<Rightarrow> int \<Rightarrow> chat_request" where
  "blog_request topic target_audience word_count =
     (let estimated_tokens = py_int (of_int word_count * (3 / 2)) in
      \<lparr>model = lit ''gpt-3.5-turbo'',
       messages =
         [(lit ''system'',
           lit ''You are an expert content writer specializing in engaging, SEO-friendly blog posts.''),
          (lit ''user'', blog_prompt topic target_audience word_count)],
       max_tokens = estimated_tokens,
       temperature = 7 / 10\<rparr>)"

text \<open>The variables of the parsing loop, and the loop body for one line.\<close>

record blog_vars =
  title :: ustr
  body :: ustr
  tags :: ustr
  current_section :: ustr

definition blog_init :: blog_vars where
  "blog_init = \<lparr>title = [], body = [], tags = [], current_section = []\<rparr>"

definition blog_line :: "blog_vars \<Rightarrow> ustr \<Rightarrow> blog_vars" where
  "blog_line v line =
     (if str_startswith line (lit ''TITLE:'') then
        v\<lparr>title := str_strip (str_replace line (lit ''TITLE:'') []),
          current_section := lit ''title''\<rparr>
      else if str_startswith line (lit ''CONTENT:'') then
        v\<lparr>current_section := lit ''content''\<rparr>
      else if str_startswith line (lit ''TAGS:'') then
        v\<lparr>tags := str_strip (str_replace line (lit ''TAGS:'') []),
          current_section := lit ''tags''\<rparr>
      else if current_section v = lit ''content'' \<and> str_strip line \<noteq> [] then
        v\<lparr>body := body v @ line @ [10]\<rparr>
      else v)"

definition parse_blog_reply :: "ustr \<Rightarrow> blog_vars" where
  "parse_blog_reply content = foldl blog_line blog_init (str_split content [10])"

text \<open>The list comprehension \<open>[tag.strip() for tag in tags.split(",") if tag.strip()]\<close>.\<close>

definition tag_list :: "ustr \<Rightarrow> ustr list" where
  "tag_list raw = map str_strip (filter (\<lambda>tag. str_strip tag \<noteq> []) (str_split raw [44]))"

text \<open>The two dictionaries that the operation returns.\<close>

record blog_post =
  post_title :: ustr
  post_content :: ustr
  post_tags :: "ustr list"
  post_topic :: ustr
  post_target_audience :: ustr
  post_word_count :: nat
  post_generated_at :: ustr
  post_status :: ustr

record error_result =
  err_status :: ustr
  err_error :: ustr
  err_generated_at :: ustr

definition generate_blog_post ::
  "chat_api \<Rightarrow> clock \<Rightarrow> ustr \<Rightarrow> ustr \<Rightarrow> int \<Rightarrow> error_result + blog_post" where
  "generate_blog_post create now topic target_audience word_count =
     (case create (blog_request topic target_audience word_count) of
        Inr content \<Rightarrow>
          (let v = parse_blog_reply content;
               full_content = title v @ [10] @ body v
           in Inr \<lparr>post_title = title v,
                   post_content = str_strip (body v),
                   post_tags = tag_list (tags v),
                   post_topic = topic,
                   post_target_audience = target_audience,
                   post_word_count = length (str_split_ws full_content),
                   post_generated_at = now 0,
                   post_status = lit ''success''\<rparr>)
      | Inl e \<Rightarrow>
          Inl \<lparr>err_status = lit ''error'', err_error = e, err_generated_at = now 0\<rparr>)"

section \<open>AIContentGenerator.generate\_content\_calendar\<close>

definition calendar_prompt :: "ustr \<Rightarrow> int \<Rightarrow> ustr" where
  "calendar_prompt niche num_posts = concat [
      [10],
      lit ''        Create '', str_int num_posts, lit '' blog post ideas for the '', niche, lit '' niche.'', [10],
      lit ''        '', [10],
      lit ''        For each idea, provide:'', [10],
      lit ''        1. A compelling title'', [10],
      lit ''        2. A brief description (2-3 sentences)'', [10],
      lit ''        3. Target audience'', [10],
      lit ''        4. Estimated difficulty level (Beginner/Intermediate/Advanced)'', [10],
      lit ''        '', [10],
      lit ''        Format each idea as:'', [10],
      lit ''        IDEA [number]:'', [10],
      lit ''        Title: [title]'', [10],
      lit ''        Description: [description]'', [10],
      lit ''        Audience: [target audience]'', [10],
      lit ''        Level: [difficulty level]'', [10],
      lit ''        ---'', [10],
      lit ''        '']"

definition calendar_request :: "ustr \<Rightarrow> int \<Rightarrow> chat_request" where
  "calendar_request niche num_posts =
     \<lparr>model = lit ''gpt-3.5-turbo'',
      messages =
        [(lit ''system'',
          lit ''You are a content strategist specializing in creating engaging content calendars.''),
         (lit ''user'', calendar_prompt niche num_posts)],
      max_tokens = 2000,
      temperature = 8 / 10\<rparr>"

text \<open>
  The dictionary \<open>idea\<close>: the key \<open>generated_at\<close> is always there, each of the other
  four keys only once a line has set it.
\<close>

record idea =
  idea_generated_at :: ustr
  idea_title :: "ustr option"
  idea_description :: "ustr option"
  idea_audience :: "ustr option"
  idea_level :: "ustr option"

definition idea_line :: "idea \<Rightarrow> ustr \<Rightarrow> idea" where
  "idea_line i line =
     (if str_startswith line (lit ''Title:'') then
        i\<lparr>idea_title := Some (str_strip (str_replace line (lit ''Title:'') []))\<rparr>
      else if str_startswith line (lit ''Description:'') then
        i\<lparr>idea_description := Some (str_strip (str_replace line (lit ''Description:'') []))\<rparr>
      else if str_startswith line (lit ''Audience:'') then
        i\<lparr>idea_audience := Some (str_strip (str_replace line (lit ''Audience:'') []))\<rparr>
      else if str_startswith line (lit ''Level:'') then
        i\<lparr>idea_level := Some (str_strip (str_replace line (lit ''Level:'') []))\<rparr>
      else i)"

text \<open>
  The dictionary built from one section that passed the test on \<open>IDEA\<close> and \<open>Title:\<close>,
  stamped with the time \<open>t\<close>.
\<close>

definition parse_idea :: "ustr \<Rightarrow> ustr \<Rightarrow> idea" where
  "parse_idea t section =
     foldl idea_line
       \<lparr>idea_generated_at = t, idea_title = None, idea_description = None,
        idea_audience = None, idea_level = None\<rparr>
       (str_split (str_strip section) [10])"

text \<open>
  The body of the loop over the sections. The state is the list \<open>ideas\<close> and the number
  of clock readings made so far: the clock is read for every section that passes the
  test, also when the section is dropped afterwards.
\<close>

definition calendar_section :: "clock \<Rightarrow> idea list \<times> nat \<Rightarrow> ustr \<Rightarrow> idea list \<times> nat" where
  "calendar_section now st section =
     (case st of (ideas, k) \<Rightarrow>
        if str_contains section (lit ''IDEA'') \<and> str_contains section (lit ''Title:'') then
          (let i = parse_idea (now k) section in
           if idea_title i \<noteq> None then (ideas @ [i], Suc k) else (ideas, Suc k))
        else (ideas, k))"

record content_calendar =
  cal_niche :: ustr
  cal_total_ideas :: nat
  cal_ideas :: "idea list"
  cal_generated_at :: ustr
  cal_status :: ustr

definition generate_content_calendar ::
  "chat_api \<Rightarrow> clock \<Rightarrow> ustr \<Rightarrow> int \<Rightarrow> error_result + content_calendar" where
  "generate_content_calendar create now niche num_posts =
     (case create (calendar_request niche num_posts) of
        Inr content \<Rightarrow>
          (case foldl (calendar_section now) ([], 0) (str_split content (lit ''---'')) of
             (ideas, k) \<Rightarrow>
               Inr \<lparr>cal_niche = niche,
                    cal_total_ideas = length ideas,
                    cal_ideas = ideas,
                    cal_generated_at = now k,
                    cal_status = lit ''success''\<rparr>)
      | Inl e \<Rightarrow>
          Inl \<lparr>err_status = lit ''error'', err_error = e, err_generated_at = now 0\<rparr>)"

section \<open>FeedbackAnalyzer\<close>

definition sentiment_request :: "ustr \<Rightarrow> chat_request" where
  "sentiment_request text =
     \<lparr>model = lit ''gpt-3.5-turbo'',
      messages =
        [(lit ''system'', lit ''You are a sentiment analysis expert.''),
         (lit ''user'',
          concat [
            lit ''Analyze the sentiment of the following text and return one of the following: Positive, Negative, or Neutral.'',
            [10], [10], lit ''Text: '', [34], text, [34]])],
      max_tokens = 10,
      temperature = 0\<rparr>"

definition analyze_sentiment :: "chat_api \<Rightarrow> ustr \<Rightarrow> ustr" where
  "analyze_sentiment create text =
     (case create (sentiment_request text) of
        Inr content \<Rightarrow> str_strip content
      | Inl e \<Rightarrow> lit ''Error: '' @ e)"

definition themes_request :: "ustr list \<Rightarrow> chat_request" where
  "themes_request feedback_list =
     \<lparr>model = lit ''gpt-3.5-turbo'',
      messages =
        [(lit ''system'', lit ''You are an expert in text analysis and theme identification.''),
         (lit ''user'',
          concat [
            lit ''Identify the key themes from the following list of user feedback. Group similar feedback together and provide a summary of the main topics.'',
            [10], [10], lit ''Feedback:'', [10], lit ''- '',
            str_join (10 # lit ''- '') feedback_list])],
      max_tokens = 500,
      temperature = 5 / 10\<rparr>"

definition identify_key_themes :: "chat_api \<Rightarrow> ustr list \<Rightarrow> ustr" where
  "identify_key_themes create feedback_list =
     (case create (themes_request feedback_list) of
        Inr content \<Rightarrow> str_strip content
      | Inl e \<Rightarrow> lit ''Error: '' @ e)"

section \<open>Notions of the specification\<close>

text \<open>
  The number of whitespace-delimited tokens of a string, counted without building the
  tokens: a token starts at every non-whitespace character that stands at the beginning
  of the string or follows a whitespace character. \<open>gap\<close> tells whether the position
  before the current one is such a beginning.
\<close>

fun count_tokens :: "bool \<Rightarrow> ustr \<Rightarrow> nat" where
  "count_tokens gap [] = 0"
| "count_tokens gap (c # cs) =
     (if isspace c then count_tokens True cs
      else (if gap then 1 else 0) + count_tokens False cs)"

definition token_count :: "ustr \<Rightarrow> nat" where
  "token_count s = count_tokens True s"

text \<open>A line that starts with one of the three markers of the blog-post reply.\<close>

definition is_marker_line :: "ustr \<Rightarrow> bool" where
  "is_marker_line line \<longleftrightarrow>
     str_startswith line (lit ''TITLE:'') \<or> str_startswith line (lit ''CONTENT:'') \<or>
     str_startswith line (lit ''TAGS:'')"

text \<open>
  The tags as the specification words them: split on commas, trim each piece, drop the
  pieces that are empty after trimming.
\<close>

definition tags_spec :: "ustr \<Rightarrow> ustr list" where
  "tags_spec raw = filter (\<lambda>piece. piece \<noteq> []) (map str_strip (str_split raw [44]))"

text \<open>Everything after the marker at the start of a line, trimmed.\<close>

definition after_marker :: "ustr \<Rightarrow> ustr \<Rightarrow> ustr" where
  "after_marker marker line = str_strip (drop (length marker) line)"

text \<open>
  A segment of the calendar reply is a candidate when it contains both \<open>IDEA\<close> and
  \<open>Title:\<close>; it contributes an idea when, moreover, one of its lines starts with
  \<open>Title:\<close>, so that a title is extracted.
\<close>

definition is_candidate :: "ustr \<Rightarrow> bool" where
  "is_candidate section \<longleftrightarrow>
     str_contains section (lit ''IDEA'') \<and> str_contains section (lit ''Title:'')"

definition contributes :: "ustr \<Rightarrow> bool" where
  "contributes section \<longleftrightarrow> is_candidate section \<and>
     (\<exists>line\<in>set (str_split (str_strip section) [10]). str_startswith line (lit ''Title:''))"

text \<open>The four parsed entries of an idea, without its time stamp.\<close>

definition idea_fields :: "idea \<Rightarrow> ustr option \<times> ustr option \<times> ustr option \<times> ustr option" where
  "idea_fields i = (idea_title i, idea_description i, idea_audience i, idea_level i)"

section \<open>Example replies\<close>

text \<open>The reply of the word-count test of the repository.\<close>

definition test_reply :: ustr where
  "test_reply = lit ''TITLE: Test Title'' @ [10] @ lit ''CONTENT:'' @ [10] @
     lit ''This is the body of the test blog post.'' @ [10] @ lit ''TAGS: test, blog, post''"

text \<open>
  A calendar reply of three segments: a well-formed idea, a candidate whose \<open>Title:\<close>
  line is indented (no line starts with \<open>Title:\<close>), and a last segment of one newline.
\<close>

definition calendar_reply :: ustr where
  "calendar_reply = lit ''IDEA 1:'' @ [10] @ lit ''Title: A'' @ [10] @ lit ''Level: Beginner'' @ [10] @
     lit ''---'' @ [10] @
     lit ''IDEA 2:'' @ [10] @ lit '' Title: B'' @ [10] @ lit ''Description: D'' @ [10] @
     lit ''---'' @ [10]"

text \<open>A blog-post reply in which every marker occurs twice.\<close>

definition repeated_reply :: ustr where
  "repeated_reply = lit ''TITLE: A'' @ [10] @ lit ''TAGS: a'' @ [10] @ lit ''CONTENT:'' @ [10] @
     lit ''x'' @ [10] @ lit ''TITLE: B'' @ [10] @ lit ''TAGS: b, c'' @ [10] @ lit ''CONTENT:'' @ [10] @
     lit ''y'' @ [10] @ [10] @ lit ''z''"

section \<open>Evaluation and auxiliary facts\<close>

text \<open>The equations that unfold the model on a concrete input.\<close>

named_theorems run

lemmas [run] = lit_def isspace_def str_strip_def str_startswith_def str_split_def str_split_ws_def
  blog_init_def blog_line_def parse_blog_reply_def tag_list_def token_count_def is_marker_line_def
  parse_idea_def idea_line_def calendar_section_def

lemmas gen = generate_content_calendar_def generate_blog_post_def

subsection \<open>Strings\<close>

lemma length_words_from:
  "length (words_from cur s) = (if cur = [] then 0 else 1) + count_tokens (cur = []) s"
  by (induction s arbitrary: cur) auto

lemma length_str_split_ws: "length (str_split_ws s) = token_count s"
  by (simp add: str_split_ws_def token_count_def length_words_from)

lemma count_tokens_newline:
  "count_tokens gap (xs @ [10] @ ys) = count_tokens gap xs + count_tokens True ys"
  by (induction xs arbitrary: gap) (simp_all add: isspace_def)

lemma token_count_newline: "token_count (xs @ 10 # ys) = token_count xs + token_count ys"
  using count_tokens_newline [of True xs ys] by (simp add: token_count_def)

lemma strip_nil: "str_strip [] = []"
  by (simp add: str_strip_def)

lemma str_strip_decomp:
  "\<exists>l r. s = l @ str_strip s @ r \<and> (\<forall>c\<in>set l. isspace c) \<and> (\<forall>c\<in>set r. isspace c)"
proof -
  let ?d = "dropWhile isspace s"
  have 1: "s = takeWhile isspace s @ ?d" by simp
  have "rev (takeWhile isspace (rev ?d) @ dropWhile isspace (rev ?d)) = rev (rev ?d)"
    by (simp only: takeWhile_dropWhile_id)
  then have 2: "?d = str_strip s @ rev (takeWhile isspace (rev ?d))"
    by (simp only: rev_append rev_rev_ident str_strip_def)
  have 3: "\<forall>c\<in>set (takeWhile isspace s). isspace c" by (auto dest: set_takeWhileD)
  have 4: "\<forall>c\<in>set (rev (takeWhile isspace (rev ?d))). isspace c" by (auto dest: set_takeWhileD)
  from 1 2 have "s = takeWhile isspace s @ str_strip s @ rev (takeWhile isspace (rev ?d))" by simp
  with 3 4 show ?thesis by blast
qed

lemma str_strip_ends:
  assumes "str_strip s \<noteq> []"
  shows "\<not> isspace (hd (str_strip s)) \<and> \<not> isspace (last (str_strip s))"
proof -
  let ?d = "dropWhile isspace s"
  let ?e = "dropWhile isspace (rev ?d)"
  from assms have e: "?e \<noteq> []" by (simp add: str_strip_def)
  have d: "?d \<noteq> []"
  proof
    assume a: "?d = []"
    have "?e = []" unfolding a by simp
    with e show False by contradiction
  qed
  have "last (str_strip s) = hd ?e" using e by (simp add: str_strip_def last_rev)
  moreover have "\<not> isspace (hd ?e)" using e by (rule hd_dropWhile)
  moreover have "hd (str_strip s) = last ?e" using e by (simp add: str_strip_def hd_rev)
  moreover have "rev ?d = takeWhile isspace (rev ?d) @ ?e" by simp
  then have "last (rev ?d) = last ?e" using e by (metis last_appendR)
  moreover have "last (rev ?d) = hd ?d" using d by (simp add: last_rev)
  moreover have "\<not> isspace (hd ?d)" using d by (rule hd_dropWhile)
  ultimately show ?thesis by simp
qed

lemma str_replace_absent: "\<not> str_contains s old \<Longrightarrow> str_replace s old new = s"
  by (induction s) auto

text \<open>
  Where the marker does not occur again after the start of the line, removing every
  occurrence leaves what follows the marker.
\<close>

lemma str_replace_prefix_once:
  assumes "str_startswith line marker" "marker \<noteq> []"
    "\<not> str_contains (drop (length marker) line) marker"
  shows "str_strip (str_replace line marker []) = after_marker marker line"
proof (cases line)
  case Nil
  with assms show ?thesis by (simp add: str_startswith_def)
next
  case (Cons c cs)
  from assms(2) have "drop (length marker) (c # cs) = drop (length marker - 1) cs"
    by (cases marker) simp_all
  with assms Cons show ?thesis
    by (simp add: after_marker_def str_replace_absent)
qed

lemma py_int_three_halves:
  "py_int (of_int w * (3 / 2)) = (if 0 \<le> w then 3 * w div 2 else - (3 * (- w) div 2))"
proof -
  have e: "(of_int w * (3 / 2) :: rat) = of_int (3 * w) / of_int 2" by simp
  have f: "\<lfloor>of_int w * (3 / 2) :: rat\<rfloor> = 3 * w div 2"
    unfolding e by (rule floor_divide_of_int_eq)
  have g: "- (of_int w * (3 / 2) :: rat) = of_int (3 * (- w)) / of_int 2" by simp
  have "\<lceil>of_int w * (3 / 2) :: rat\<rceil> = - \<lfloor>- (of_int w * (3 / 2) :: rat)\<rfloor>"
    by (simp add: ceiling_def)
  also have "\<dots> = - (3 * (- w) div 2)"
    unfolding g by (simp only: floor_divide_of_int_eq)
  finally have h: "\<lceil>of_int w * (3 / 2) :: rat\<rceil> = - (3 * (- w) div 2)" .
  have s: "(0 \<le> (of_int w * (3 / 2) :: rat)) = (0 \<le> w)"
    by (simp add: zero_le_mult_iff)
  show ?thesis unfolding py_int_def s f h by simp
qed

subsection \<open>The loop of the blog-post parser\<close>

lemma tag_list_nil: "tag_list [] = []"
  by (simp add: tag_list_def str_split_def str_strip_def)

lemma tag_list_eq_tags_spec: "tag_list raw = tags_spec raw"
  by (simp add: tag_list_def tags_spec_def filter_map comp_def)

lemma foldl_no_markers:
  assumes "\<forall>line\<in>set ls. \<not> is_marker_line line" "current_section v \<noteq> lit ''content''"
  shows "foldl blog_line v ls = v"
  using assms by (induction ls arbitrary: v) (auto simp: blog_line_def is_marker_line_def)

lemma tags_not_title:
  "str_startswith line (lit ''TAGS:'') \<Longrightarrow> \<not> str_startswith line (lit ''TITLE:'')"
  by (cases line; cases "tl line") (auto simp: str_startswith_def lit_def)

lemma tags_not_content:
  "str_startswith line (lit ''TAGS:'') \<Longrightarrow> \<not> str_startswith line (lit ''CONTENT:'')"
  by (cases line) (auto simp: str_startswith_def lit_def)

lemma content_not_title:
  "str_startswith line (lit ''CONTENT:'') \<Longrightarrow> \<not> str_startswith line (lit ''TITLE:'')"
  by (cases line) (auto simp: str_startswith_def lit_def)

lemma title_blog_line:
  "title (blog_line v line) =
     (if str_startswith line (lit ''TITLE:'') then str_strip (str_replace line (lit ''TITLE:'') [])
      else title v)"
  by (simp add: blog_line_def)

lemma tags_blog_line:
  "tags (blog_line v line) =
     (if str_startswith line (lit ''TAGS:'') then str_strip (str_replace line (lit ''TAGS:'') [])
      else tags v)"
  using tags_not_title [of line] tags_not_content [of line] by (auto simp: blog_line_def)

lemma title_foldl_kept:
  "\<forall>l\<in>set ls. \<not> str_startswith l (lit ''TITLE:'') \<Longrightarrow> title (foldl blog_line v ls) = title v"
  by (induction ls arbitrary: v) (simp_all add: title_blog_line)

lemma tags_foldl_kept:
  "\<forall>l\<in>set ls. \<not> str_startswith l (lit ''TAGS:'') \<Longrightarrow> tags (foldl blog_line v ls) = tags v"
  by (induction ls arbitrary: v) (simp_all add: tags_blog_line)

lemma body_foldl_content:
  assumes "\<forall>l\<in>set ls. \<not> is_marker_line l" "current_section v = lit ''content''"
  shows "body (foldl blog_line v ls) =
           body v @ concat (map (\<lambda>l. l @ [10]) (filter (\<lambda>l. str_strip l \<noteq> []) ls))"
  using assms
proof (induction ls arbitrary: v)
  case Nil
  show ?case by simp
next
  case (Cons l ls)
  from Cons.prems have m: "\<not> is_marker_line l" and r: "\<forall>x\<in>set ls. \<not> is_marker_line x"
    by simp_all
  from m Cons.prems(2) have s: "current_section (blog_line v l) = lit ''content''"
    by (simp add: blog_line_def is_marker_line_def)
  from m Cons.prems(2)
  have b: "body (blog_line v l) = body v @ (if str_strip l \<noteq> [] then l @ [10] else [])"
    by (simp add: blog_line_def is_marker_line_def)
  show ?case using Cons.IH [OF r s] b by simp
qed

lemma content_blog_line:
  "str_startswith line (lit ''CONTENT:'') \<Longrightarrow>
     blog_line v line = v\<lparr>current_section := lit ''content''\<rparr>"
  using content_not_title [of line] by (simp add: blog_line_def)

subsection \<open>The loops of the calendar parser\<close>

lemma idea_line_stamp:
  "idea_line (i\<lparr>idea_generated_at := t\<rparr>) line = (idea_line i line)\<lparr>idea_generated_at := t\<rparr>"
  by (simp add: idea_line_def)

lemma foldl_idea_line_stamp:
  "foldl idea_line (i\<lparr>idea_generated_at := t\<rparr>) ls = (foldl idea_line i ls)\<lparr>idea_generated_at := t\<rparr>"
  by (induction ls arbitrary: i) (simp_all add: idea_line_stamp)

lemma parse_idea_stamp:
  "parse_idea t section = (parse_idea t' section)\<lparr>idea_generated_at := t\<rparr>"
proof -
  have "\<lparr>idea_generated_at = t, idea_title = None, idea_description = None,
          idea_audience = None, idea_level = None\<rparr>
      = \<lparr>idea_generated_at = t', idea_title = None, idea_description = None,
          idea_audience = None, idea_level = None\<rparr>\<lparr>idea_generated_at := t\<rparr>" by simp
  then show ?thesis
    unfolding parse_idea_def by (simp only: foldl_idea_line_stamp)
qed

lemma idea_fields_parse_idea:
  "idea_fields (parse_idea t section) = idea_fields (parse_idea t' section)"
  by (subst parse_idea_stamp [of t "section" "t'"]) (simp add: idea_fields_def)

lemma idea_title_foldl:
  "idea_title (foldl idea_line i ls) \<noteq> None \<longleftrightarrow>
     idea_title i \<noteq> None \<or> (\<exists>line\<in>set ls. str_startswith line (lit ''Title:''))"
  by (induction ls arbitrary: i) (auto simp: idea_line_def)

lemma idea_title_parse_idea:
  "idea_title (parse_idea t section) \<noteq> None \<longleftrightarrow>
     (\<exists>line\<in>set (str_split (str_strip section) [10]). str_startswith line (lit ''Title:''))"
  unfolding parse_idea_def by (subst idea_title_foldl) simp

lemma calendar_section_step:
  "calendar_section now (ideas, k) section =
     (if contributes section then (ideas @ [parse_idea (now k) section], Suc k)
      else if is_candidate section then (ideas, Suc k) else (ideas, k))"
  using idea_title_parse_idea [of "now k" "section"]
  by (auto simp: calendar_section_def contributes_def is_candidate_def Let_def)

lemma calendar_loop_fields:
  "map idea_fields (fst (foldl (calendar_section now) (ideas, k) sections)) =
     map idea_fields ideas
       @ map (\<lambda>section. idea_fields (parse_idea t section)) (filter contributes sections)"
proof (induction sections arbitrary: ideas k)
  case Nil
  show ?case by simp
next
  case (Cons s ss)
  show ?case
    by (simp add: calendar_section_step Cons.IH idea_fields_parse_idea [of "now k" s t])
qed

lemma calendar_loop_titled:
  "\<forall>i\<in>set ideas. idea_title i \<noteq> None \<Longrightarrow>
     \<forall>i\<in>set (fst (foldl (calendar_section now) (ideas, k) sections)). idea_title i \<noteq> None"
proof (induction sections arbitrary: ideas k)
  case Nil
  then show ?case by simp
next
  case (Cons s ss)
  show ?case
  proof (cases "contributes s")
    case True
    then have "idea_title (parse_idea (now k) s) \<noteq> None"
      unfolding contributes_def using idea_title_parse_idea [of "now k" s] by blast
    with Cons.prems have "\<forall>i\<in>set (ideas @ [parse_idea (now k) s]). idea_title i \<noteq> None"
      by simp
    from Cons.IH [OF this] True show ?thesis by (simp add: calendar_section_step)
  next
    case False
    with Cons.IH [OF Cons.prems] show ?thesis by (simp add: calendar_section_step)
  qed
qed

section \<open>The claims\<close>

text \<open>
  C1. For every reply that \<open>generate_blog_post\<close> parses, the returned \<open>word_count\<close> is the
  number of whitespace-delimited tokens of the extracted title, one newline and the
  accumulated, untrimmed body, whatever the title and the body are (the empty string
  included). Since the newline separates, this is the number of tokens of the title plus
  that of the body.
\<close>

theorem word_count_counts_title_newline_body:
  assumes "create (blog_request topic target_audience word_count) = Inr content"
  shows "\<exists>post. generate_blog_post create now topic target_audience word_count = Inr post
           \<and> post_title post = title (parse_blog_reply content)
           \<and> post_word_count post =
               token_count (title (parse_blog_reply content) @ [10] @ body (parse_blog_reply content))
           \<and> post_word_count post =
               token_count (title (parse_blog_reply content)) + token_count (body (parse_blog_reply content))"
  using assms
  by (simp add: generate_blog_post_def Let_def length_str_split_ws token_count_newline)

theorem word_count_counts_title_newline_body_witness:
  "(\<exists>post. generate_blog_post (\<lambda>_. Inr test_reply) (\<lambda>_. lit ''2024-01-01T00:00:00'') (lit ''Test Topic'') (lit ''general'') 20 = Inr post
      \<and> post_title post = lit ''Test Title'' \<and> post_word_count post = 11)
   \<and> (\<exists>post. generate_blog_post (\<lambda>_. Inr []) (\<lambda>_. lit ''2024-01-01T00:00:00'') (lit ''Test Topic'') (lit ''general'') 20 = Inr post
      \<and> post_title post = [] \<and> post_word_count post = 0)"
proof -
  have a: "title (parse_blog_reply test_reply) = lit ''Test Title''"
    by (simp add: run test_reply_def)
  have b: "token_count (title (parse_blog_reply test_reply) @ [10] @ body (parse_blog_reply test_reply)) = 11"
    by (simp add: run test_reply_def)
  have c: "title (parse_blog_reply []) = []"
    by (simp add: run)
  have d: "token_count (title (parse_blog_reply []) @ [10] @ body (parse_blog_reply [])) = 0"
    by (simp add: run)
  from word_count_counts_title_newline_body [where create = "\<lambda>_. Inr test_reply" and content = test_reply
      and topic = "lit ''Test Topic''" and target_audience = "lit ''general''" and word_count = 20
      and now = "\<lambda>_. lit ''2024-01-01T00:00:00''", OF refl] a b
  have 1: "\<exists>post. generate_blog_post (\<lambda>_. Inr test_reply) (\<lambda>_. lit ''2024-01-01T00:00:00'') (lit ''Test Topic'') (lit ''general'') 20 = Inr post
      \<and> post_title post = lit ''Test Title'' \<and> post_word_count post = 11"
    by auto
  from word_count_counts_title_newline_body [where create = "\<lambda>_. Inr []" and content = "[]"
      and topic = "lit ''Test Topic''" and target_audience = "lit ''general''" and word_count = 20
      and now = "\<lambda>_. lit ''2024-01-01T00:00:00''", OF refl] c d
  have 2: "\<exists>post. generate_blog_post (\<lambda>_. Inr []) (\<lambda>_. lit ''2024-01-01T00:00:00'') (lit ''Test Topic'') (lit ''general'') 20 = Inr post
      \<and> post_title post = [] \<and> post_word_count post = 0"
    by auto
  from 1 2 show ?thesis by (rule conjI)
qed

text \<open>
  C2. For every reply none of whose lines starts with \<open>TITLE:\<close>, \<open>CONTENT:\<close> or \<open>TAGS:\<close>,
  the empty reply included, \<open>generate_blog_post\<close> does not fail: it returns a record with
  status \<open>success\<close>, the empty title, the empty content and no tags.
\<close>

theorem no_markers_gives_empty_success:
  assumes "create (blog_request topic target_audience word_count) = Inr content"
    and "\<forall>line\<in>set (str_split content [10]). \<not> is_marker_line line"
  shows "\<exists>post. generate_blog_post create now topic target_audience word_count = Inr post
           \<and> post_status post = lit ''success'' \<and> post_title post = [] \<and> post_content post = []
           \<and> post_tags post = []"
proof -
  have "parse_blog_reply content = blog_init"
    unfolding parse_blog_reply_def using assms(2)
    by (intro foldl_no_markers) (simp_all add: blog_init_def lit_def)
  then show ?thesis using assms(1)
    by (simp add: generate_blog_post_def Let_def blog_init_def strip_nil tag_list_nil)
qed

theorem no_markers_gives_empty_success_witness:
  "(\<exists>post. generate_blog_post (\<lambda>_. Inr (lit ''This is not properly formatted'' @ [10] @ lit ''at all'')) (\<lambda>_. lit ''2024-01-01T00:00:00'')
        (lit ''Test'') (lit ''general'') 800 = Inr post
      \<and> post_status post = lit ''success'' \<and> post_title post = [] \<and> post_content post = []
      \<and> post_tags post = [])
   \<and> (\<exists>post. generate_blog_post (\<lambda>_. Inr []) (\<lambda>_. lit ''2024-01-01T00:00:00'') (lit ''Test'') (lit ''general'') 800 = Inr post
      \<and> post_status post = lit ''success'' \<and> post_title post = [] \<and> post_content post = []
      \<and> post_tags post = [])"
proof -
  have a: "\<forall>line\<in>set (str_split (lit ''This is not properly formatted'' @ [10] @ lit ''at all'') [10]).
      \<not> is_marker_line line"
    by (simp add: run)
  have b: "\<forall>line\<in>set (str_split [] [10]). \<not> is_marker_line line"
    by (simp add: run)
  show ?thesis
    using no_markers_gives_empty_success [where create = "\<lambda>_. Inr (lit ''This is not properly formatted'' @ [10] @ lit ''at all'')"
        and topic = "lit ''Test''" and target_audience = "lit ''general''" and word_count = 800
        and now = "\<lambda>_. lit ''2024-01-01T00:00:00''", OF refl a]
      no_markers_gives_empty_success [where create = "\<lambda>_. Inr []"
        and topic = "lit ''Test''" and target_audience = "lit ''general''" and word_count = 800
        and now = "\<lambda>_. lit ''2024-01-01T00:00:00''", OF refl b]
    by (rule conjI)
qed

text \<open>
  C3. The claim: the value extracted from a line that starts with a marker is everything
  after the marker, trimmed, also when the marker text occurs again later in the line.
  The code removes every occurrence of the marker from the line: on the line
  \<open>TITLE: A TITLE: B\<close> the title is \<open>A  B\<close>, where what follows the marker is
  \<open>A TITLE: B\<close>; on \<open>TAGS: a, TAGS: b\<close> the tags are \<open>a\<close> and \<open>b\<close>, where what follows the
  marker gives \<open>a\<close> and \<open>TAGS: b\<close>; and in the calendar the line \<open>Title: X Title: Y\<close> gives
  the title \<open>X  Y\<close>, where what follows the prefix is \<open>X Title: Y\<close>.
\<close>

theorem marker_repeated_in_line_removed:
  "(\<exists>post. generate_blog_post (\<lambda>_. Inr (lit ''TITLE: A TITLE: B'' @ [10] @ lit ''TAGS: a, TAGS: b''))
        (\<lambda>_. lit ''2024-01-01T00:00:00'') (lit ''Test Topic'') (lit ''general'') 800 = Inr post
      \<and> post_title post = lit ''A  B''
      \<and> post_tags post = [lit ''a'', lit ''b''])
   \<and> after_marker (lit ''TITLE:'') (lit ''TITLE: A TITLE: B'') = lit ''A TITLE: B''
   \<and> tag_list (after_marker (lit ''TAGS:'') (lit ''TAGS: a, TAGS: b'')) = [lit ''a'', lit ''TAGS: b'']
   \<and> (\<exists>cal. generate_content_calendar (\<lambda>_. Inr (lit ''IDEA 1:'' @ [10] @ lit ''Title: X Title: Y''))
        (\<lambda>_. lit ''2024-01-01T00:00:00'') (lit ''AI'') 30 = Inr cal
      \<and> map idea_title (cal_ideas cal) = [Some (lit ''X  Y'')])
   \<and> after_marker (lit ''Title:'') (lit ''Title: X Title: Y'') = lit ''X Title: Y''"
  by (simp add: run gen after_marker_def)

text \<open>
  C4. The returned tags are obtained from the raw tags string of the \<open>TAGS:\<close> line by
  splitting it on commas, trimming each piece and dropping the pieces that are empty after
  trimming, in the original order; the string \<open>test, blog, post\<close> gives the list
  \<open>test\<close>, \<open>blog\<close>, \<open>post\<close>.
\<close>

theorem tags_split_trim_drop_empty:
  "(create (blog_request topic target_audience word_count) = Inr content \<longrightarrow>
      (\<exists>post. generate_blog_post create now topic target_audience word_count = Inr post
         \<and> post_tags post = tags_spec (tags (parse_blog_reply content))))
   \<and> tag_list raw = tags_spec raw
   \<and> tag_list (lit ''test, blog, post'') = [lit ''test'', lit ''blog'', lit ''post'']"
proof -
  have "tag_list (lit ''test, blog, post'') = [lit ''test'', lit ''blog'', lit ''post'']"
    by (simp add: run)
  then show ?thesis
    by (simp add: generate_blog_post_def Let_def tag_list_eq_tags_spec)
qed

theorem tags_split_trim_drop_empty_witness:
  "\<exists>post. generate_blog_post (\<lambda>_. Inr test_reply) (\<lambda>_. lit ''2024-01-01T00:00:00'') (lit ''Test Topic'') (lit ''general'') 20 = Inr post
      \<and> post_tags post = [lit ''test'', lit ''blog'', lit ''post'']"
proof -
  have "tags_spec (tags (parse_blog_reply test_reply)) = [lit ''test'', lit ''blog'', lit ''post'']"
    by (simp add: tags_spec_def run test_reply_def)
  then show ?thesis
    using tags_split_trim_drop_empty [where create = "\<lambda>_. Inr test_reply" and content = test_reply
        and topic = "lit ''Test Topic''" and target_audience = "lit ''general''" and word_count = 20
        and now = "\<lambda>_. lit ''2024-01-01T00:00:00''"]
    by auto
qed

text \<open>
  C5, as amended. The claim that the maximum output size is \<open>w * 1.5\<close> rounded fails for
  odd \<open>w\<close>: the code converts with \<open>int\<close>, which truncates. For every target word count
  \<open>w\<close> whose product with 1.5 is exact in floating point (\<open>\<bar>w\<bar> < 2 ^ 51\<close>), the maximum
  output size passed to the chat-completion call is \<open>w * 1.5\<close> truncated towards zero, which
  is \<open>3 * w div 2\<close> for \<open>w \<ge> 0\<close>, and the randomness parameter is 0.7.
\<close>

theorem blog_max_tokens_truncates:
  assumes "\<bar>word_count\<bar> < 2 ^ 51"
  shows "max_tokens (blog_request topic target_audience word_count) =
           (if 0 \<le> word_count then 3 * word_count div 2 else - (3 * (- word_count) div 2))
         \<and> temperature (blog_request topic target_audience word_count) = 7 / 10"
  unfolding blog_request_def Let_def py_int_three_halves by simp

theorem blog_max_tokens_truncates_witness:
  "\<bar>801 :: int\<bar> < 2 ^ 51
   \<and> max_tokens (blog_request (lit ''Passive Income'') (lit ''entrepreneurs'') 801) = 1201
   \<and> temperature (blog_request (lit ''Passive Income'') (lit ''entrepreneurs'') 801) = 7 / 10"
  using blog_max_tokens_truncates [of 801 "lit ''Passive Income''" "lit ''entrepreneurs''"] by simp

text \<open>
  The claim C5 as stated fails at the word count 1: the code passes \<open>int(1.5) = 1\<close>, and
  1.5 rounded is 2.
\<close>

theorem blog_max_tokens_not_round:
  "max_tokens (blog_request (lit ''Passive Income'') (lit ''entrepreneurs'') 1) = 1
   \<and> round (of_int 1 * (3 / 2) :: rat) = 2
   \<and> max_tokens (blog_request (lit ''Passive Income'') (lit ''entrepreneurs'') 1)
       \<noteq> round (of_int 1 * (3 / 2) :: rat)"
  unfolding blog_request_def Let_def py_int_three_halves by (simp add: round_def)

text \<open>
  C6. The calendar parser splits the reply on \<open>---\<close>, and a segment contributes an idea if
  and only if it contains \<open>IDEA\<close> and \<open>Title:\<close> and a title is extracted from one of its
  lines: the ideas returned are, in order and up to their time stamps, the ideas parsed
  from the contributing segments, and each has a title. Every other segment, also one
  with \<open>Description:\<close>, \<open>Audience:\<close> or \<open>Level:\<close> lines, leaves nothing in the result.
\<close>

theorem calendar_ideas_from_contributing_segments:
  assumes "create (calendar_request niche num_posts) = Inr content"
  shows "\<exists>cal. generate_content_calendar create now niche num_posts = Inr cal
           \<and> map idea_fields (cal_ideas cal) =
               map (\<lambda>section. idea_fields (parse_idea t section))
                 (filter contributes (str_split content (lit ''---'')))
           \<and> (\<forall>i\<in>set (cal_ideas cal). idea_title i \<noteq> None)"
proof -
  obtain ideas k
    where f: "foldl (calendar_section now) ([], 0) (str_split content (lit ''---'')) = (ideas, k)"
    by (cases "foldl (calendar_section now) ([], 0) (str_split content (lit ''---''))")
  have "map idea_fields ideas =
      map (\<lambda>section. idea_fields (parse_idea t section))
        (filter contributes (str_split content (lit ''---'')))"
    using calendar_loop_fields [of now "[]" 0 "str_split content (lit ''---'')" t] by (simp add: f)
  moreover have "\<forall>i\<in>set ideas. idea_title i \<noteq> None"
    using calendar_loop_titled [of "[]" now 0 "str_split content (lit ''---'')"] by (simp add: f)
  ultimately show ?thesis
    using assms by (simp add: generate_content_calendar_def f)
qed

theorem calendar_ideas_from_contributing_segments_witness:
  "\<exists>cal. generate_content_calendar (\<lambda>_. Inr calendar_reply) (\<lambda>_. lit ''2024-01-01T00:00:00'') (lit ''AI'') 2 = Inr cal
     \<and> map idea_fields (cal_ideas cal) = [(Some (lit ''A''), None, None, Some (lit ''Beginner''))]"
proof -
  have "map (\<lambda>section. idea_fields (parse_idea [] section))
          (filter contributes (str_split calendar_reply (lit ''---'')))
      = [(Some (lit ''A''), None, None, Some (lit ''Beginner''))]"
    by (simp add: run calendar_reply_def contributes_def is_candidate_def idea_fields_def)
  then show ?thesis
    using calendar_ideas_from_contributing_segments [where create = "\<lambda>_. Inr calendar_reply"
        and niche = "lit ''AI''" and num_posts = 2 and content = calendar_reply
        and now = "\<lambda>_. lit ''2024-01-01T00:00:00''" and t = "[]", OF refl]
    by auto
qed

text \<open>
  C7. In every successful result of \<open>generate_content_calendar\<close>, \<open>total_ideas\<close> is the
  length of the list of ideas. It need not be the requested number of posts: the same
  reply, which holds one idea, is returned for a request of two ideas and for a request
  of none.
\<close>

theorem total_ideas_is_length_not_request:
  "(generate_content_calendar create now niche num_posts = Inr cal \<longrightarrow>
      cal_total_ideas cal = length (cal_ideas cal))
   \<and> (\<exists>cal. generate_content_calendar (\<lambda>_. Inr calendar_reply) (\<lambda>_. lit ''2024-01-01T00:00:00'') (lit ''AI'') 2 = Inr cal
         \<and> int (cal_total_ideas cal) < 2)
   \<and> (\<exists>cal. generate_content_calendar (\<lambda>_. Inr calendar_reply) (\<lambda>_. lit ''2024-01-01T00:00:00'') (lit ''AI'') 0 = Inr cal
         \<and> int (cal_total_ideas cal) > 0)"
proof -
  have "generate_content_calendar create now niche num_posts = Inr cal \<longrightarrow>
      cal_total_ideas cal = length (cal_ideas cal)"
    by (auto simp: generate_content_calendar_def split: sum.splits prod.splits)
  moreover
  have "\<exists>cal. generate_content_calendar (\<lambda>_. Inr calendar_reply) (\<lambda>_. lit ''2024-01-01T00:00:00'') (lit ''AI'') 2 = Inr cal
         \<and> int (cal_total_ideas cal) < 2"
    by (simp add: run gen calendar_reply_def)
  moreover
  have "\<exists>cal. generate_content_calendar (\<lambda>_. Inr calendar_reply) (\<lambda>_. lit ''2024-01-01T00:00:00'') (lit ''AI'') 0 = Inr cal
         \<and> int (cal_total_ideas cal) > 0"
    by (simp add: run gen calendar_reply_def)
  ultimately show ?thesis by blast
qed

theorem total_ideas_is_length_not_request_witness:
  "\<exists>cal. generate_content_calendar (\<lambda>_. Inr calendar_reply) (\<lambda>_. lit ''2024-01-01T00:00:00'') (lit ''AI'') 30 = Inr cal
     \<and> cal_total_ideas cal = length (cal_ideas cal) \<and> cal_total_ideas cal = 1"
proof -
  have e: "generate_content_calendar (\<lambda>_. Inr calendar_reply) (\<lambda>_. lit ''2024-01-01T00:00:00'') (lit ''AI'') 30 =
    Inr \<lparr>cal_niche = lit ''AI'', cal_total_ideas = 1,
      cal_ideas = [\<lparr>idea_generated_at = lit ''2024-01-01T00:00:00'', idea_title = Some (lit ''A''),
        idea_description = None, idea_audience = None, idea_level = Some (lit ''Beginner'')\<rparr>],
      cal_generated_at = lit ''2024-01-01T00:00:00'', cal_status = lit ''success''\<rparr>"
    by (simp add: run gen calendar_reply_def)
  show ?thesis
    using total_ideas_is_length_not_request [of "\<lambda>_. Inr calendar_reply" "\<lambda>_. lit ''2024-01-01T00:00:00''" "lit ''AI''" 30, THEN conjunct1] e
    by simp
qed

text \<open>
  C8. When the chat-completion call fails with an exception, \<open>generate_blog_post\<close> and
  \<open>generate_content_calendar\<close> return a record with status \<open>error\<close>, the text of the
  exception in \<open>error\<close> and the reading of the clock in \<open>generated_at\<close>; they return a
  value, so nothing reaches the caller as an exception.
\<close>

theorem external_failure_becomes_error_record:
  "(create (blog_request topic target_audience word_count) = Inl e \<longrightarrow>
      generate_blog_post create now topic target_audience word_count =
        Inl \<lparr>err_status = lit ''error'', err_error = e, err_generated_at = now 0\<rparr>)
   \<and> (create (calendar_request niche num_posts) = Inl e \<longrightarrow>
      generate_content_calendar create now niche num_posts =
        Inl \<lparr>err_status = lit ''error'', err_error = e, err_generated_at = now 0\<rparr>)"
  by (simp add: generate_blog_post_def generate_content_calendar_def)

theorem external_failure_becomes_error_record_witness:
  "generate_blog_post (\<lambda>_. Inl (lit ''API Error'')) (\<lambda>_. lit ''2024-01-01T00:00:00'') (lit ''Test Topic'') (lit ''general'') 800 =
     Inl \<lparr>err_status = lit ''error'', err_error = lit ''API Error'',
          err_generated_at = lit ''2024-01-01T00:00:00''\<rparr>
   \<and> generate_content_calendar (\<lambda>_. Inl (lit ''API Error'')) (\<lambda>_. lit ''2024-01-01T00:00:00'') (lit ''Test Niche'') 30 =
     Inl \<lparr>err_status = lit ''error'', err_error = lit ''API Error'',
          err_generated_at = lit ''2024-01-01T00:00:00''\<rparr>"
  using external_failure_becomes_error_record [of "\<lambda>_. Inl (lit ''API Error'')" "lit ''Test Topic''"
      "lit ''general''" 800 "lit ''API Error''" "\<lambda>_. lit ''2024-01-01T00:00:00''" "lit ''Test Niche''" 30]
  by simp

text \<open>
  C9. \<open>analyze_sentiment\<close> and \<open>identify_key_themes\<close> return, when the call succeeds, the
  reply with its surrounding whitespace trimmed and nothing else changed: the reply is the
  returned text between two runs of whitespace, and the returned text neither starts nor
  ends with whitespace. When the call fails they return the plain string \<open>Error: \<close>
  followed by the text of the exception, not a record. In both cases a value is returned.
\<close>

theorem analyzer_trimmed_reply_or_error_string:
  "(create (sentiment_request text) = Inr content \<longrightarrow>
      analyze_sentiment create text = str_strip content
      \<and> (\<exists>l r. content = l @ analyze_sentiment create text @ r
            \<and> (\<forall>c\<in>set l. isspace c) \<and> (\<forall>c\<in>set r. isspace c))
      \<and> (analyze_sentiment create text \<noteq> [] \<longrightarrow>
            \<not> isspace (hd (analyze_sentiment create text))
            \<and> \<not> isspace (last (analyze_sentiment create text))))
   \<and> (create (sentiment_request text) = Inl e \<longrightarrow>
      analyze_sentiment create text = lit ''Error: '' @ e)
   \<and> (create (themes_request feedback_list) = Inr content \<longrightarrow>
      identify_key_themes create feedback_list = str_strip content
      \<and> (\<exists>l r. content = l @ identify_key_themes create feedback_list @ r
            \<and> (\<forall>c\<in>set l. isspace c) \<and> (\<forall>c\<in>set r. isspace c))
      \<and> (identify_key_themes create feedback_list \<noteq> [] \<longrightarrow>
            \<not> isspace (hd (identify_key_themes create feedback_list))
            \<and> \<not> isspace (last (identify_key_themes create feedback_list))))
   \<and> (create (themes_request feedback_list) = Inl e \<longrightarrow>
      identify_key_themes create feedback_list = lit ''Error: '' @ e)"
  using str_strip_decomp [of content] str_strip_ends [of content]
  by (simp add: analyze_sentiment_def identify_key_themes_def)

theorem analyzer_trimmed_reply_or_error_string_witness:
  "analyze_sentiment (\<lambda>_. Inr (lit '' Positive'' @ [10])) (lit ''This is a great app!'') = lit ''Positive''
   \<and> analyze_sentiment (\<lambda>_. Inl (lit ''API Error'')) (lit ''This is a great app!'') = lit ''Error: API Error''
   \<and> identify_key_themes (\<lambda>_. Inr (lit '' Login Issues'' @ [10])) [lit ''Cannot log in.''] = lit ''Login Issues''
   \<and> identify_key_themes (\<lambda>_. Inl (lit ''API Error'')) [lit ''Cannot log in.''] = lit ''Error: API Error''"
proof -
  have a: "str_strip (lit '' Positive'' @ [10]) = lit ''Positive''" by (simp add: run)
  have b: "str_strip (lit '' Login Issues'' @ [10]) = lit ''Login Issues''" by (simp add: run)
  have c: "lit ''Error: '' @ lit ''API Error'' = lit ''Error: API Error''" by (simp add: run)
  show ?thesis
    using analyzer_trimmed_reply_or_error_string [of "\<lambda>_. Inr (lit '' Positive'' @ [10])"
        "lit ''This is a great app!''" "lit '' Positive'' @ [10]" "lit ''API Error''" "[lit ''Cannot log in.'']"]
      analyzer_trimmed_reply_or_error_string [of "\<lambda>_. Inl (lit ''API Error'')"
        "lit ''This is a great app!''" "[]" "lit ''API Error''" "[lit ''Cannot log in.'']"]
      analyzer_trimmed_reply_or_error_string [of "\<lambda>_. Inr (lit '' Login Issues'' @ [10])"
        "lit ''This is a great app!''" "lit '' Login Issues'' @ [10]" "lit ''API Error''" "[lit ''Cannot log in.'']"]
    by (simp add: a b c)
qed

text \<open>
  C10. In the blog-post parser a later \<open>TITLE:\<close> line overwrites the title and a later
  \<open>TAGS:\<close> line the raw tags, so that the returned title and tags come from the last such
  line of the reply. The body is not reset by a later \<open>CONTENT:\<close> line: the non-blank
  lines that follow it are appended to the body accumulated before it.
\<close>

theorem last_marker_wins_body_appends:
  assumes "create (blog_request topic target_audience word_count) = Inr content"
    and "str_split content [10] = before @ line # rest"
  shows "\<exists>post. generate_blog_post create now topic target_audience word_count = Inr post
     \<and> (str_startswith line (lit ''TITLE:'') \<and> (\<forall>l\<in>set rest. \<not> str_startswith l (lit ''TITLE:'')) \<longrightarrow>
          post_title post = str_strip (str_replace line (lit ''TITLE:'') []))
     \<and> (str_startswith line (lit ''TAGS:'') \<and> (\<forall>l\<in>set rest. \<not> str_startswith l (lit ''TAGS:'')) \<longrightarrow>
          post_tags post = tag_list (str_strip (str_replace line (lit ''TAGS:'') [])))
     \<and> (str_startswith line (lit ''CONTENT:'') \<and> (\<forall>l\<in>set rest. \<not> is_marker_line l) \<longrightarrow>
          post_content post =
            str_strip (body (foldl blog_line blog_init before)
              @ concat (map (\<lambda>l. l @ [10]) (filter (\<lambda>l. str_strip l \<noteq> []) rest))))"
proof -
  let ?v = "foldl blog_line blog_init before"
  have p: "parse_blog_reply content = foldl blog_line (blog_line ?v line) rest"
    by (simp add: parse_blog_reply_def assms(2))
  have a: "title (parse_blog_reply content) = str_strip (str_replace line (lit ''TITLE:'') [])"
    if "str_startswith line (lit ''TITLE:'')" "\<forall>l\<in>set rest. \<not> str_startswith l (lit ''TITLE:'')"
    using that by (simp add: p title_foldl_kept title_blog_line)
  have b: "tags (parse_blog_reply content) = str_strip (str_replace line (lit ''TAGS:'') [])"
    if "str_startswith line (lit ''TAGS:'')" "\<forall>l\<in>set rest. \<not> str_startswith l (lit ''TAGS:'')"
    using that by (simp add: p tags_foldl_kept tags_blog_line)
  have c: "body (parse_blog_reply content) =
      body ?v @ concat (map (\<lambda>l. l @ [10]) (filter (\<lambda>l. str_strip l \<noteq> []) rest))"
    if "str_startswith line (lit ''CONTENT:'')" "\<forall>l\<in>set rest. \<not> is_marker_line l"
    using that by (simp add: p content_blog_line body_foldl_content)
  show ?thesis
    using assms(1) a b c by (simp add: generate_blog_post_def Let_def)
qed

theorem last_marker_wins_body_appends_witness:
  "\<exists>post. generate_blog_post (\<lambda>_. Inr repeated_reply) (\<lambda>_. lit ''2024-01-01T00:00:00'') (lit ''Test Topic'') (lit ''general'') 800 = Inr post
     \<and> post_title post = lit ''B'' \<and> post_tags post = [lit ''b'', lit ''c'']
     \<and> post_content post = lit ''x'' @ [10] @ lit ''y'' @ [10] @ lit ''z''"
proof -
  let ?g = "generate_blog_post (\<lambda>_. Inr repeated_reply) (\<lambda>_. lit ''2024-01-01T00:00:00'') (lit ''Test Topic'') (lit ''general'') 800"
  let ?b1 = "[lit ''TITLE: A'', lit ''TAGS: a'', lit ''CONTENT:'', lit ''x'']"
  let ?r1 = "[lit ''TAGS: b, c'', lit ''CONTENT:'', lit ''y'', [], lit ''z'']"
  let ?b2 = "[lit ''TITLE: A'', lit ''TAGS: a'', lit ''CONTENT:'', lit ''x'', lit ''TITLE: B'']"
  let ?r2 = "[lit ''CONTENT:'', lit ''y'', [], lit ''z'']"
  let ?b3 = "[lit ''TITLE: A'', lit ''TAGS: a'', lit ''CONTENT:'', lit ''x'', lit ''TITLE: B'',
      lit ''TAGS: b, c'']"
  let ?r3 = "[lit ''y'', [], lit ''z'']"
  have s1: "str_split repeated_reply [10] = ?b1 @ lit ''TITLE: B'' # ?r1"
    by (simp add: run repeated_reply_def)
  have s2: "str_split repeated_reply [10] = ?b2 @ lit ''TAGS: b, c'' # ?r2"
    by (simp add: run repeated_reply_def)
  have s3: "str_split repeated_reply [10] = ?b3 @ lit ''CONTENT:'' # ?r3"
    by (simp add: run repeated_reply_def)
  have h1: "str_startswith (lit ''TITLE: B'') (lit ''TITLE:'')
      \<and> (\<forall>l\<in>set ?r1. \<not> str_startswith l (lit ''TITLE:''))"
    by (simp add: run)
  have h2: "str_startswith (lit ''TAGS: b, c'') (lit ''TAGS:'')
      \<and> (\<forall>l\<in>set ?r2. \<not> str_startswith l (lit ''TAGS:''))"
    by (simp add: run)
  have h3: "str_startswith (lit ''CONTENT:'') (lit ''CONTENT:'') \<and> (\<forall>l\<in>set ?r3. \<not> is_marker_line l)"
    by (simp add: run)
  have v1: "str_strip (str_replace (lit ''TITLE: B'') (lit ''TITLE:'') []) = lit ''B''"
    by (simp add: run)
  have v2: "tag_list (str_strip (str_replace (lit ''TAGS: b, c'') (lit ''TAGS:'') [])) = [lit ''b'', lit ''c'']"
    by (simp add: run)
  have v3: "str_strip (body (foldl blog_line blog_init ?b3)
              @ concat (map (\<lambda>l. l @ [10]) (filter (\<lambda>l. str_strip l \<noteq> []) ?r3)))
            = lit ''x'' @ [10] @ lit ''y'' @ [10] @ lit ''z''"
    by (simp add: run)
  from last_marker_wins_body_appends [where create = "\<lambda>_. Inr repeated_reply" and content = repeated_reply
      and topic = "lit ''Test Topic''" and target_audience = "lit ''general''" and word_count = 800
      and now = "\<lambda>_. lit ''2024-01-01T00:00:00''", OF refl s1] h1 v1
  obtain p1 where p1: "?g = Inr p1" "post_title p1 = lit ''B''" by auto
  from last_marker_wins_body_appends [where create = "\<lambda>_. Inr repeated_reply" and content = repeated_reply
      and topic = "lit ''Test Topic''" and target_audience = "lit ''general''" and word_count = 800
      and now = "\<lambda>_. lit ''2024-01-01T00:00:00''", OF refl s2] h2 v2
  obtain p2 where p2: "?g = Inr p2" "post_tags p2 = [lit ''b'', lit ''c'']" by auto
  from last_marker_wins_body_appends [where create = "\<lambda>_. Inr repeated_reply" and content = repeated_reply
      and topic = "lit ''Test Topic''" and target_audience = "lit ''general''" and word_count = 800
      and now = "\<lambda>_. lit ''2024-01-01T00:00:00''", OF refl s3] h3 v3
  obtain p3 where p3: "?g = Inr p3"
    "post_content p3 = lit ''x'' @ [10] @ lit ''y'' @ [10] @ lit ''z''" by auto
  from p1 p2 p3 have "p2 = p1" "p3 = p1" by simp_all
  with p1 p2 p3 show ?thesis by simp
qed

end
